theory Spec2Isabelle
  imports Main "HOL-Library.AList"
begin

section \<open>JavaScript values\<close>

text \<open>
  The module \<^verbatim>\<open>index.js\<close> handles plain JavaScript values: strings, the
  values produced by \<^verbatim>\<open>JSON.parse\<close>, option objects, and the read streams made by
  \<^verbatim>\<open>fs.createReadStream\<close>. An object is the list of its own properties in
  insertion order (JavaScript lists a property named like an array index first; the
  properties are looked up by name only). A property holds data, never a function.
\<close>

text \<open>Numbers are restricted to the safe integers of JavaScript, those of absolute value
  at most \<^verbatim>\<open>Number.MAX_SAFE_INTEGER\<close>, which is \<^verbatim>\<open>2^53 - 1\<close>: each of them is a
  number of the language, and is printed in plain decimal notation. A fractional or
  a larger number needs floating point, which is outside this development.\<close>

typedef safe_int = "{n :: int. \<bar>n\<bar> \<le> 9007199254740991}"
  morphisms int_of safe
  by (rule exI [of _ 0]) simp

datatype js_value =
    JUndefined
  | JNull
  | JBool bool
  | JNum safe_int
  | JStr string
  | JArr "js_value list"
  | JObj "(string \<times> js_value) list"
  | JStream string

type_synonym object = "(string \<times> js_value) list"

text \<open>What a \<^verbatim>\<open>throw\<close> can carry: the three built-in error classes the module can
  raise, and an arbitrary value thrown as it is (\<^verbatim>\<open>throw result\<close>).\<close>

datatype js_exn =
    Error string
  | TypeError
  | SyntaxError
  | Thrown js_value

subsection \<open>String conversion\<close>

fun show_nat :: "nat \<Rightarrow> string" where
  "show_nat n =
     (if n < 10 then [''0123456789'' ! n]
      else show_nat (n div 10) @ [''0123456789'' ! (n mod 10)])"

declare show_nat.simps [simp del]

definition show_int :: "int \<Rightarrow> string" where
  "show_int i = (if i < 0 then ''-'' @ show_nat (nat (- i)) else show_nat (nat i))"

fun join_with :: "string \<Rightarrow> string list \<Rightarrow> string" where
  "join_with sep [] = []"
| "join_with sep [x] = x"
| "join_with sep (x # y # ys) = x @ sep @ join_with sep (y # ys)"

text \<open>The results of a list of conversions, or the first exception among them.\<close>

fun collect :: "(js_exn + string) list \<Rightarrow> js_exn + string list" where
  "collect [] = Inr []"
| "collect (Inl e # rs) = Inl e"
| "collect (Inr x # rs) = (case collect rs of Inl e \<Rightarrow> Inl e | Inr xs \<Rightarrow> Inr (x # xs))"

text \<open>The conversion to a string, as \<^verbatim>\<open>+\<close> with a string operand and \<^verbatim>\<open>JSON.parse\<close>
  apply it to their argument. An object is converted by its methods \<^verbatim>\<open>valueOf\<close> and
  \<^verbatim>\<open>toString\<close>, where a property that is not a function is passed over. The
  inherited \<^verbatim>\<open>valueOf\<close> returns the object itself, which is no string, and the
  inherited \<^verbatim>\<open>toString\<close> gives \<^verbatim>\<open>[object Object]\<close>. An object with a property of
  its own named \<^verbatim>\<open>toString\<close> hides the inherited method and is left with no method
  that gives a string: the conversion raises a TypeError. An array is joined with
  commas, its \<^verbatim>\<open>null\<close> and \<^verbatim>\<open>undefined\<close> elements giving the empty string, the
  others converted in turn.\<close>

fun to_string :: "js_value \<Rightarrow> js_exn + string" where
  "to_string JUndefined = Inr ''undefined''"
| "to_string JNull = Inr ''null''"
| "to_string (JBool b) = Inr (if b then ''true'' else ''false'')"
| "to_string (JNum n) = Inr (show_int (int_of n))"
| "to_string (JStr s) = Inr s"
| "to_string (JArr xs) =
     (case collect
             (map (\<lambda>x. if x = JUndefined \<or> x = JNull then Inr [] else to_string x) xs) of
        Inl e \<Rightarrow> Inl e
      | Inr parts \<Rightarrow> Inr (join_with '','' parts))"
| "to_string (JObj ps) =
     (if map_of ps ''toString'' = None then Inr ''[object Object]'' else Inl TypeError)"
| "to_string (JStream f) = Inr ''[object Object]''"

text \<open>The truth value of a JavaScript value in a condition.\<close>

fun truthy :: "js_value \<Rightarrow> bool" where
  "truthy JUndefined = False"
| "truthy JNull = False"
| "truthy (JBool b) = b"
| "truthy (JNum n) = (int_of n \<noteq> 0)"
| "truthy (JStr s) = (s \<noteq> [])"
| "truthy (JArr xs) = True"
| "truthy (JObj ps) = True"
| "truthy (JStream f) = True"

text \<open>Reading a property \<^verbatim>\<open>v.name\<close>: a TypeError on \<^verbatim>\<open>undefined\<close> and
  \<^verbatim>\<open>null\<close>, the own property of an object, and \<^verbatim>\<open>undefined\<close> when there is none.
  The module reads only the names \<^verbatim>\<open>response\<close>, \<^verbatim>\<open>body\<close>, \<^verbatim>\<open>error\<close>,
  \<^verbatim>\<open>code\<close> and \<^verbatim>\<open>message\<close>, none of which is inherited by a parsed JSON value.\<close>

fun get_prop :: "js_value \<Rightarrow> string \<Rightarrow> js_exn + js_value" where
  "get_prop JUndefined name = Inl TypeError"
| "get_prop JNull name = Inl TypeError"
| "get_prop (JObj ps) name = Inr (case map_of ps name of None \<Rightarrow> JUndefined | Some v \<Rightarrow> v)"
| "get_prop v name = Inr JUndefined"

section \<open>The HTTP library and the environment\<close>

text \<open>The three ways the module calls \<^verbatim>\<open>request-promise\<close>, with the options it
  passes: \<^verbatim>\<open>request.get({url, qs})\<close>, \<^verbatim>\<open>request.post({url, qs, formData})\<close> and
  \<^verbatim>\<open>request(url)\<close>.\<close>

datatype http_request =
    RequestGet string object
  | RequestPost string object object
  | Request string

text \<open>The promise the library returns settles either with the response body, a string, or
  is rejected with the library's error value.\<close>

datatype http_result =
    Resolved string
  | RejectedWith js_value

text \<open>What lies outside the module: the answer of the network to a request, and
  \<^verbatim>\<open>JSON.parse\<close>, which gives \<open>None\<close> where it raises a SyntaxError.\<close>

record env =
  http :: "http_request \<Rightarrow> http_result"
  JSON_parse :: "string \<Rightarrow> js_value option"

text \<open>What a call of an exported function does: throw before it returns, or return a
  promise that is later rejected or fulfilled.\<close>

datatype outcome =
    Throws js_exn
  | Rejects js_exn
  | Fulfils js_value

text \<open>An argument in the position of an options object: left out, an object created
  during the call that nothing else refers to, or an object of the caller, by address.\<close>

datatype js_arg =
    Undefined
  | Fresh object
  | Ref nat

text \<open>The module's two variables, the caller's objects, and the requests issued so far.\<close>

record state =
  apiKey :: js_value
  baseUrl :: string
  store :: "nat \<Rightarrow> object"
  issued :: "http_request list"

definition initial :: state where
  "initial = \<lparr>apiKey = JUndefined, baseUrl = ''https://api.crowdin.com'',
     store = (\<lambda>a. []), issued = []\<rparr>"

section \<open>The module\<close>

subsection \<open>Private helpers\<close>

text \<open>Node's \<^verbatim>\<open>util._extend(origin, add)\<close>: when \<^verbatim>\<open>add\<close> is an object, its keys
  are walked from the last to the first (\<^verbatim>\<open>while (i--) origin[keys[i]] = add[keys[i]]\<close>)
  and \<^verbatim>\<open>origin\<close>, changed in place, is returned. An assignment keeps the position of a
  property that exists and appends a new one. This function gives the content of
  \<^verbatim>\<open>origin\<close> after the call.\<close>

definition extend :: "object \<Rightarrow> object \<Rightarrow> object" where
  "extend origin add = foldr (\<lambda>(k, v). AList.update k v) add origin"

definition validateKey :: "state \<Rightarrow> js_exn + unit" where
  "validateKey s =
     (if apiKey s = JUndefined then Inl (Error ''Please specify CrowdIn API key.'')
      else Inr ())"

text \<open>\<^verbatim>\<open>throwError\<close> always throws; the result is the exception it throws: the Error
  with the vendor's code and message, or the TypeError of a property read or of a
  conversion to a string that fails. The operands of \<^verbatim>\<open>+\<close> are evaluated and
  converted from left to right.\<close>

definition throwError :: "js_value \<Rightarrow> js_exn" where
  "throwError result =
     (case get_prop result ''error'' of
        Inl e \<Rightarrow> e
      | Inr err \<Rightarrow>
          (case get_prop err ''code'' of
             Inl e \<Rightarrow> e
           | Inr code \<Rightarrow>
               (case to_string code of
                  Inl e \<Rightarrow> e
                | Inr code_text \<Rightarrow>
                    (case get_prop err ''message'' of
                       Inl e \<Rightarrow> e
                     | Inr message \<Rightarrow>
                         (case to_string message of
                            Inl e \<Rightarrow> e
                          | Inr message_text \<Rightarrow>
                              Error (''Error code '' @ code_text @ '': '' @ message_text))))))"

text \<open>Reading \<^verbatim>\<open>result.response\<close> in the rejection handler: a built-in error object
  has no such property.\<close>

fun caught_response :: "js_exn \<Rightarrow> js_exn + js_value" where
  "caught_response (Thrown v) = get_prop v ''response''"
| "caught_response e = Inr JUndefined"

text \<open>The function passed to \<^verbatim>\<open>.catch\<close> in \<^verbatim>\<open>handleRequest\<close>. It always throws; the
  result is the exception the promise is rejected with.\<close>

definition on_rejected :: "env \<Rightarrow> js_exn \<Rightarrow> js_exn" where
  "on_rejected e result =
     (case caught_response result of
        Inl t \<Rightarrow> t
      | Inr response \<Rightarrow>
          (case get_prop response ''body'' of
             Inl t \<Rightarrow> t
           | Inr body \<Rightarrow>
               if truthy body then
                 (case to_string body of
                    Inl t \<Rightarrow> t
                  | Inr text \<Rightarrow>
                      (case JSON_parse e text of
                         None \<Rightarrow> SyntaxError
                       | Some parsed \<Rightarrow> throwError parsed))
               else result))"

text \<open>\<^verbatim>\<open>handleRequest\<close>: parse the body; the second \<^verbatim>\<open>then\<close> returns the parsed
  value as it is (its check of \<^verbatim>\<open>result.success\<close> is commented out in the source); a
  rejection of the request and a SyntaxError of the first \<^verbatim>\<open>then\<close> both reach the
  handler.\<close>

definition handleRequest :: "env \<Rightarrow> http_result \<Rightarrow> outcome" where
  "handleRequest e request =
     (case request of
        Resolved body \<Rightarrow>
          (case JSON_parse e body of
             Some result \<Rightarrow> Fulfils result
           | None \<Rightarrow> Rejects (on_rejected e SyntaxError))
      | RejectedWith result \<Rightarrow> Rejects (on_rejected e (Thrown result)))"

text \<open>A call of the HTTP library: the request is issued and the network answers.\<close>

definition send :: "env \<Rightarrow> http_request \<Rightarrow> state \<Rightarrow> http_result \<times> state" where
  "send e r s = (http e r, s\<lparr>issued := issued s @ [r]\<rparr>)"

definition getApiCall :: "env \<Rightarrow> string \<Rightarrow> state \<Rightarrow> outcome \<times> state" where
  "getApiCall e apiUrl s =
     (case validateKey s of
        Inl err \<Rightarrow> (Throws err, s)
      | Inr _ \<Rightarrow>
          (let url = baseUrl s @ ''/api/'' @ apiUrl;
               params = [(''json'', JBool True), (''key'', apiKey s)]
           in case send e (RequestGet url params) s of
                (res, s') \<Rightarrow> (handleRequest e res, s')))"

text \<open>The content of an object argument read as a source of properties: \<^verbatim>\<open>_extend\<close>
  copies nothing from \<^verbatim>\<open>undefined\<close>, and \<^verbatim>\<open>postOptions || {}\<close> is empty then.\<close>

fun arg_object :: "js_arg \<Rightarrow> state \<Rightarrow> object" where
  "arg_object Undefined s = []"
| "arg_object (Fresh obj) s = obj"
| "arg_object (Ref a) s = store s a"

text \<open>\<^verbatim>\<open>extend(getOptions || {}, add)\<close>: the extended object, and the state, in which an
  object of the caller has been changed in place.\<close>

fun extend_arg :: "js_arg \<Rightarrow> object \<Rightarrow> state \<Rightarrow> object \<times> state" where
  "extend_arg Undefined add s = (extend [] add, s)"
| "extend_arg (Fresh obj) add s = (extend obj add, s)"
| "extend_arg (Ref a) add s =
     (extend (store s a) add, s\<lparr>store := (store s)(a := extend (store s a) add)\<rparr>)"

definition postApiCall :: "env \<Rightarrow> string \<Rightarrow> js_arg \<Rightarrow> js_arg \<Rightarrow> state \<Rightarrow> outcome \<times> state" where
  "postApiCall e apiUrl getOptions postOptions s =
     (case validateKey s of
        Inl err \<Rightarrow> (Throws err, s)
      | Inr _ \<Rightarrow>
          (let url = baseUrl s @ ''/api/'' @ apiUrl
           in case extend_arg getOptions [(''json'', JBool True), (''key'', apiKey s)] s of
                (params, s1) \<Rightarrow>
                  (case send e (RequestPost url params (arg_object postOptions s1)) s1 of
                     (res, s2) \<Rightarrow> (handleRequest e res, s2))))"

text \<open>The promise of the library handed to the caller as it is: fulfilled with the body, a
  string, or rejected with the library's error value.\<close>

fun settle :: "http_result \<Rightarrow> outcome" where
  "settle (Resolved body) = Fulfils (JStr body)"
| "settle (RejectedWith result) = Rejects (Thrown result)"

text \<open>\<^verbatim>\<open>getApiRequest\<close> builds the whole URL by concatenation, which converts the key
  to a string, and returns the promise of the library untouched.\<close>

definition getApiRequest :: "env \<Rightarrow> string \<Rightarrow> state \<Rightarrow> outcome \<times> state" where
  "getApiRequest e apiUrl s =
     (case validateKey s of
        Inl err \<Rightarrow> (Throws err, s)
      | Inr _ \<Rightarrow>
          (case to_string (apiKey s) of
             Inl err \<Rightarrow> (Throws err, s)
           | Inr key \<Rightarrow>
               (let url = baseUrl s @ ''/api/'' @ apiUrl @ ''?key='' @ key @ ''&json''
                in case send e (Request url) s of
                     (res, s') \<Rightarrow> (settle res, s'))))"

subsection \<open>Exported functions\<close>

definition setBasePath :: "string \<Rightarrow> state \<Rightarrow> state" where
  "setBasePath newBasePath s = s\<lparr>baseUrl := newBasePath\<rparr>"

definition setKey :: "js_value \<Rightarrow> state \<Rightarrow> state" where
  "setKey newKey s = s\<lparr>apiKey := newKey\<rparr>"

text \<open>The loop \<^verbatim>\<open>files.forEach\<close> of the three upload functions.\<close>

fun add_streams :: "string list \<Rightarrow> object \<Rightarrow> object" where
  "add_streams [] filesInformation = filesInformation"
| "add_streams (fileName # files) filesInformation =
     add_streams files
       (AList.update (''files['' @ fileName @ '']'') (JStream fileName) filesInformation)"

definition addFile :: "env \<Rightarrow> string \<Rightarrow> string list \<Rightarrow> js_arg \<Rightarrow> state \<Rightarrow> outcome \<times> state" where
  "addFile e projectName files params s =
     postApiCall e (''project/'' @ projectName @ ''/add-file'') (Fresh [])
       (Fresh (extend (add_streams files []) (arg_object params s))) s"

definition updateFile :: "env \<Rightarrow> string \<Rightarrow> string list \<Rightarrow> js_arg \<Rightarrow> state \<Rightarrow> outcome \<times> state" where
  "updateFile e projectName files params s =
     postApiCall e (''project/'' @ projectName @ ''/update-file'') (Fresh [])
       (Fresh (extend (add_streams files []) (arg_object params s))) s"

definition deleteFile :: "env \<Rightarrow> string \<Rightarrow> string \<Rightarrow> state \<Rightarrow> outcome \<times> state" where
  "deleteFile e projectName fileName s =
     postApiCall e (''project/'' @ projectName @ ''/delete-file'') (Fresh [])
       (Fresh [(''file'', JStr fileName)]) s"

definition updateTranslations ::
  "env \<Rightarrow> string \<Rightarrow> string list \<Rightarrow> string \<Rightarrow> js_arg \<Rightarrow> state \<Rightarrow> outcome \<times> state" where
  "updateTranslations e projectName files language params s =
     postApiCall e (''project/'' @ projectName @ ''/upload-translation'') (Fresh [])
       (Fresh (extend (add_streams files [(''language'', JStr language)]) (arg_object params s))) s"

definition translationStatus :: "env \<Rightarrow> string \<Rightarrow> state \<Rightarrow> outcome \<times> state" where
  "translationStatus e projectName s =
     postApiCall e (''project/'' @ projectName @ ''/status'') Undefined Undefined s"

definition projectInfo :: "env \<Rightarrow> string \<Rightarrow> state \<Rightarrow> outcome \<times> state" where
  "projectInfo e projectName s =
     postApiCall e (''project/'' @ projectName @ ''/info'') Undefined Undefined s"

definition downloadTranslations :: "env \<Rightarrow> string \<Rightarrow> string \<Rightarrow> state \<Rightarrow> outcome \<times> state" where
  "downloadTranslations e projectName languageCode s =
     getApiRequest e (''project/'' @ projectName @ ''/download/'' @ languageCode @ ''.zip'') s"

definition downloadAllTranslations :: "env \<Rightarrow> string \<Rightarrow> state \<Rightarrow> outcome \<times> state" where
  "downloadAllTranslations e projectName s =
     getApiRequest e (''project/'' @ projectName @ ''/download/all.zip'') s"

definition exportTranslations :: "env \<Rightarrow> string \<Rightarrow> state \<Rightarrow> outcome \<times> state" where
  "exportTranslations e projectName s =
     getApiCall e (''project/'' @ projectName @ ''/export'') s"

definition editProject :: "env \<Rightarrow> string \<Rightarrow> js_arg \<Rightarrow> state \<Rightarrow> outcome \<times> state" where
  "editProject e projectName params s =
     postApiCall e (''project/'' @ projectName @ ''/edit-project'') (Fresh []) params s"

definition deleteProject :: "env \<Rightarrow> string \<Rightarrow> state \<Rightarrow> outcome \<times> state" where
  "deleteProject e projectName s =
     postApiCall e (''project/'' @ projectName @ ''/delete-project'') Undefined Undefined s"

definition createDirectory :: "env \<Rightarrow> string \<Rightarrow> string \<Rightarrow> js_arg \<Rightarrow> state \<Rightarrow> outcome \<times> state" where
  "createDirectory e projectName directory params s =
     postApiCall e (''project/'' @ projectName @ ''/add-directory'') params
       (Fresh [(''name'', JStr directory)]) s"

text \<open>\<^verbatim>\<open>changeDirectory\<close> passes \<^verbatim>\<open>params\<close> as a fourth argument to
  \<^verbatim>\<open>postApiCall\<close>, which has three parameters.\<close>

definition changeDirectory :: "env \<Rightarrow> string \<Rightarrow> string \<Rightarrow> js_arg \<Rightarrow> state \<Rightarrow> outcome \<times> state" where
  "changeDirectory e projectName directory params s =
     postApiCall e (''project/'' @ projectName @ ''/change-directory'') (Fresh [])
       (Fresh [(''name'', JStr directory)]) s"

definition deleteDirectory :: "env \<Rightarrow> string \<Rightarrow> string \<Rightarrow> state \<Rightarrow> outcome \<times> state" where
  "deleteDirectory e projectName directory s =
     postApiCall e (''project/'' @ projectName @ ''/delete-directory'') (Fresh [])
       (Fresh [(''name'', JStr directory)]) s"

definition downloadGlossary :: "env \<Rightarrow> string \<Rightarrow> state \<Rightarrow> outcome \<times> state" where
  "downloadGlossary e projectName s =
     getApiRequest e (''project/'' @ projectName @ ''/download-glossary'') s"

text \<open>\<^verbatim>\<open>typeof fileNameOrStream === 'string'\<close>: a file name is replaced by a read
  stream of that file.\<close>

fun as_stream :: "js_value \<Rightarrow> js_value" where
  "as_stream (JStr fileName) = JStream fileName"
| "as_stream v = v"

definition uploadGlossary :: "env \<Rightarrow> string \<Rightarrow> js_value \<Rightarrow> state \<Rightarrow> outcome \<times> state" where
  "uploadGlossary e projectName fileNameOrStream s =
     postApiCall e (''project/'' @ projectName @ ''/upload-glossary'') (Fresh [])
       (Fresh [(''file'', as_stream fileNameOrStream)]) s"

definition downloadTranslationMemory :: "env \<Rightarrow> string \<Rightarrow> state \<Rightarrow> outcome \<times> state" where
  "downloadTranslationMemory e projectName s =
     postApiCall e (''project/'' @ projectName @ ''/download-tm'') Undefined Undefined s"

definition uploadTranslationMemory :: "env \<Rightarrow> string \<Rightarrow> js_value \<Rightarrow> state \<Rightarrow> outcome \<times> state" where
  "uploadTranslationMemory e projectName fileNameOrStream s =
     postApiCall e (''project/'' @ projectName @ ''/upload-tm'') (Fresh [])
       (Fresh [(''file'', as_stream fileNameOrStream)]) s"

definition supportedLanguages :: "env \<Rightarrow> state \<Rightarrow> outcome \<times> state" where
  "supportedLanguages e s = getApiCall e ''supported-languages'' s"

subsection \<open>A call of an exported API operation\<close>

text \<open>The exported functions other than \<^verbatim>\<open>setKey\<close> and \<^verbatim>\<open>setBasePath\<close>, each with
  its arguments.\<close>

datatype api_call =
    AddFile string "string list" js_arg
  | UpdateFile string "string list" js_arg
  | DeleteFile string string
  | UpdateTranslations string "string list" string js_arg
  | TranslationStatus string
  | ProjectInfo string
  | DownloadTranslations string string
  | DownloadAllTranslations string
  | ExportTranslations string
  | EditProject string js_arg
  | DeleteProject string
  | CreateDirectory string string js_arg
  | ChangeDirectory string string js_arg
  | DeleteDirectory string string
  | DownloadGlossary string
  | UploadGlossary string js_value
  | DownloadTranslationMemory string
  | UploadTranslationMemory string js_value
  | SupportedLanguages

fun invoke :: "env \<Rightarrow> api_call \<Rightarrow> state \<Rightarrow> outcome \<times> state" where
  "invoke e (AddFile p fs ps) s = addFile e p fs ps s"
| "invoke e (UpdateFile p fs ps) s = updateFile e p fs ps s"
| "invoke e (DeleteFile p f) s = deleteFile e p f s"
| "invoke e (UpdateTranslations p fs l ps) s = updateTranslations e p fs l ps s"
| "invoke e (TranslationStatus p) s = translationStatus e p s"
| "invoke e (ProjectInfo p) s = projectInfo e p s"
| "invoke e (DownloadTranslations p l) s = downloadTranslations e p l s"
| "invoke e (DownloadAllTranslations p) s = downloadAllTranslations e p s"
| "invoke e (ExportTranslations p) s = exportTranslations e p s"
| "invoke e (EditProject p ps) s = editProject e p ps s"
| "invoke e (DeleteProject p) s = deleteProject e p s"
| "invoke e (CreateDirectory p d ps) s = createDirectory e p d ps s"
| "invoke e (ChangeDirectory p d ps) s = changeDirectory e p d ps s"
| "invoke e (DeleteDirectory p d) s = deleteDirectory e p d s"
| "invoke e (DownloadGlossary p) s = downloadGlossary e p s"
| "invoke e (UploadGlossary p f) s = uploadGlossary e p f s"
| "invoke e (DownloadTranslationMemory p) s = downloadTranslationMemory e p s"
| "invoke e (UploadTranslationMemory p f) s = uploadTranslationMemory e p f s"
| "invoke e SupportedLanguages s = supportedLanguages e s"

text \<open>The endpoint path of each operation, as the source builds it.\<close>

fun endpoint :: "api_call \<Rightarrow> string" where
  "endpoint (AddFile p fs ps) = ''project/'' @ p @ ''/add-file''"
| "endpoint (UpdateFile p fs ps) = ''project/'' @ p @ ''/update-file''"
| "endpoint (DeleteFile p f) = ''project/'' @ p @ ''/delete-file''"
| "endpoint (UpdateTranslations p fs l ps) = ''project/'' @ p @ ''/upload-translation''"
| "endpoint (TranslationStatus p) = ''project/'' @ p @ ''/status''"
| "endpoint (ProjectInfo p) = ''project/'' @ p @ ''/info''"
| "endpoint (DownloadTranslations p l) = ''project/'' @ p @ ''/download/'' @ l @ ''.zip''"
| "endpoint (DownloadAllTranslations p) = ''project/'' @ p @ ''/download/all.zip''"
| "endpoint (ExportTranslations p) = ''project/'' @ p @ ''/export''"
| "endpoint (EditProject p ps) = ''project/'' @ p @ ''/edit-project''"
| "endpoint (DeleteProject p) = ''project/'' @ p @ ''/delete-project''"
| "endpoint (CreateDirectory p d ps) = ''project/'' @ p @ ''/add-directory''"
| "endpoint (ChangeDirectory p d ps) = ''project/'' @ p @ ''/change-directory''"
| "endpoint (DeleteDirectory p d) = ''project/'' @ p @ ''/delete-directory''"
| "endpoint (DownloadGlossary p) = ''project/'' @ p @ ''/download-glossary''"
| "endpoint (UploadGlossary p f) = ''project/'' @ p @ ''/upload-glossary''"
| "endpoint (DownloadTranslationMemory p) = ''project/'' @ p @ ''/download-tm''"
| "endpoint (UploadTranslationMemory p f) = ''project/'' @ p @ ''/upload-tm''"
| "endpoint SupportedLanguages = ''supported-languages''"

text \<open>The operations that go through \<^verbatim>\<open>getApiRequest\<close>.\<close>

fun is_download :: "api_call \<Rightarrow> bool" where
  "is_download (DownloadTranslations p l) = True"
| "is_download (DownloadAllTranslations p) = True"
| "is_download (DownloadGlossary p) = True"
| "is_download c = False"

text \<open>The \<^verbatim>\<open>params\<close> argument of an operation that has one.\<close>

fun params_of :: "api_call \<Rightarrow> js_arg" where
  "params_of (AddFile p fs ps) = ps"
| "params_of (UpdateFile p fs ps) = ps"
| "params_of (UpdateTranslations p fs l ps) = ps"
| "params_of (EditProject p ps) = ps"
| "params_of (CreateDirectory p d ps) = ps"
| "params_of (ChangeDirectory p d ps) = ps"
| "params_of c = Undefined"

fun is_createDirectory :: "api_call \<Rightarrow> bool" where
  "is_createDirectory (CreateDirectory p d ps) = True"
| "is_createDirectory c = False"

text \<open>The requests that one call of an operation adds to those issued before it.\<close>

definition new_requests :: "env \<Rightarrow> api_call \<Rightarrow> state \<Rightarrow> http_request list" where
  "new_requests e c s = drop (length (issued s)) (issued (snd (invoke e c s)))"

section \<open>The query string of a URL\<close>

text \<open>How a URL is read: the fragment starts at the first \<^verbatim>\<open>#\<close>, the query is what
  follows the first \<^verbatim>\<open>?\<close> before it, and the parameters of the query are its pieces
  between \<^verbatim>\<open>&\<close>, each a name and, after its first \<^verbatim>\<open>=\<close>, a value. Escapes with
  \<^verbatim>\<open>%\<close> are not decoded.\<close>

fun split_first :: "char \<Rightarrow> string \<Rightarrow> string \<times> string option" where
  "split_first c [] = ([], None)"
| "split_first c (x # xs) =
     (if x = c then ([], Some xs)
      else case split_first c xs of (before, rest) \<Rightarrow> (x # before, rest))"

fun pieces :: "char \<Rightarrow> string \<Rightarrow> string list" where
  "pieces c [] = [[]]"
| "pieces c (x # xs) =
     (if x = c then [] # pieces c xs
      else case pieces c xs of [] \<Rightarrow> [[x]] | p # ps \<Rightarrow> (x # p) # ps)"

definition url_query :: "string \<Rightarrow> string option" where
  "url_query url = snd (split_first CHR ''?'' (fst (split_first CHR ''#'' url)))"

definition query_params :: "string \<Rightarrow> (string \<times> string) list" where
  "query_params query =
     map (\<lambda>piece. case split_first CHR ''='' piece of
                     (name, None) \<Rightarrow> (name, [])
                   | (name, Some v) \<Rightarrow> (name, v))
       (pieces CHR ''&'' query)"

text \<open>The value of the query parameter of a given name in a URL, if it has one.\<close>

definition url_param :: "string \<Rightarrow> string \<Rightarrow> string option" where
  "url_param name url =
     (case url_query url of None \<Rightarrow> None | Some query \<Rightarrow> map_of (query_params query) name)"

section \<open>Sample environments\<close>

text \<open>A response text in the vendor's error format, and the value \<^verbatim>\<open>JSON.parse\<close>
  gives for it.\<close>

definition envelope_text :: string where
  \<open>envelope_text = ''{"error":{"code":3,"message":"API key is not valid"}}''\<close>

definition envelope :: js_value where
  "envelope =
     JObj [(''error'',
            JObj [(''code'', JNum (safe 3)), (''message'', JStr ''API key is not valid'')])]"

text \<open>\<^verbatim>\<open>JSON.parse\<close> on the texts of the examples: the error text and \<^verbatim>\<open>{}\<close> are
  parsed, and \<^verbatim>\<open>PK\<close>, the first bytes of a ZIP file, is a syntax error. The examples
  use no other text.\<close>

definition sample_parse :: "string \<Rightarrow> js_value option" where
  "sample_parse text =
     (if text = envelope_text then Some envelope
      else if text = ''{}'' then Some (JObj [])
      else None)"

text \<open>A network that answers every request with a successful response of the given body.\<close>

definition answering :: "string \<Rightarrow> env" where
  "answering body = \<lparr>http = (\<lambda>r. Resolved body), JSON_parse = sample_parse\<rparr>"

text \<open>The error value of \<^verbatim>\<open>request-promise\<close> for a response of status 401 whose body
  is the error text above, and a network that fails every request with it.\<close>

definition status_error :: js_value where
  "status_error =
     JObj [(''name'', JStr ''StatusCodeError''), (''statusCode'', JNum (safe 401)),
           (''response'',
            JObj [(''statusCode'', JNum (safe 401)), (''body'', JStr envelope_text)])]"

definition failing :: env where
  "failing = \<lparr>http = (\<lambda>r. RejectedWith status_error), JSON_parse = sample_parse\<rparr>"

text \<open>The state after \<^verbatim>\<open>setKey('abc')\<close> in a fresh process.\<close>

definition ready :: state where
  "ready = setKey (JStr ''abc'') initial"

section \<open>Facts about the helpers\<close>

lemmas op_defs = addFile_def updateFile_def deleteFile_def updateTranslations_def
  translationStatus_def projectInfo_def downloadTranslations_def downloadAllTranslations_def
  exportTranslations_def editProject_def deleteProject_def createDirectory_def
  changeDirectory_def deleteDirectory_def downloadGlossary_def uploadGlossary_def
  downloadTranslationMemory_def uploadTranslationMemory_def supportedLanguages_def

lemmas run_defs = op_defs getApiCall_def postApiCall_def getApiRequest_def validateKey_def
  send_def extend_def handleRequest_def on_rejected_def throwError_def Let_def
  safe_inverse show_int_def show_nat.simps

lemma getApiCall_unset:
  "apiKey s = JUndefined \<Longrightarrow>
   getApiCall e u s = (Throws (Error ''Please specify CrowdIn API key.''), s)"
  by (simp add: getApiCall_def validateKey_def)

lemma postApiCall_unset:
  "apiKey s = JUndefined \<Longrightarrow>
   postApiCall e u g p s = (Throws (Error ''Please specify CrowdIn API key.''), s)"
  by (simp add: postApiCall_def validateKey_def)

lemma getApiRequest_unset:
  "apiKey s = JUndefined \<Longrightarrow>
   getApiRequest e u s = (Throws (Error ''Please specify CrowdIn API key.''), s)"
  by (simp add: getApiRequest_def validateKey_def)

lemma getApiCall_set:
  "apiKey s \<noteq> JUndefined \<Longrightarrow>
   getApiCall e u s =
     (handleRequest e
        (http e (RequestGet (baseUrl s @ ''/api/'' @ u)
                   [(''json'', JBool True), (''key'', apiKey s)])),
      s\<lparr>issued := issued s @
           [RequestGet (baseUrl s @ ''/api/'' @ u)
              [(''json'', JBool True), (''key'', apiKey s)]]\<rparr>)"
  by (simp add: getApiCall_def validateKey_def send_def Let_def)

lemma extend_arg_frame:
  "issued (snd (extend_arg g add s)) = issued s"
  "apiKey (snd (extend_arg g add s)) = apiKey s"
  "baseUrl (snd (extend_arg g add s)) = baseUrl s"
  by (cases g; simp)+

lemma postApiCall_set:
  "apiKey s \<noteq> JUndefined \<Longrightarrow>
   postApiCall e u g p s =
     (handleRequest e
        (http e (RequestPost (baseUrl s @ ''/api/'' @ u)
                   (extend (arg_object g s) [(''json'', JBool True), (''key'', apiKey s)])
                   (arg_object p
                      (snd (extend_arg g [(''json'', JBool True), (''key'', apiKey s)] s))))),
      (snd (extend_arg g [(''json'', JBool True), (''key'', apiKey s)] s))
        \<lparr>issued := issued s @
           [RequestPost (baseUrl s @ ''/api/'' @ u)
              (extend (arg_object g s) [(''json'', JBool True), (''key'', apiKey s)])
              (arg_object p
                 (snd (extend_arg g [(''json'', JBool True), (''key'', apiKey s)] s)))]\<rparr>)"
  by (cases g) (simp_all add: postApiCall_def validateKey_def send_def Let_def)

lemma getApiRequest_set:
  "apiKey s \<noteq> JUndefined \<Longrightarrow> to_string (apiKey s) = Inr key \<Longrightarrow>
   getApiRequest e u s =
     (settle (http e (Request (baseUrl s @ ''/api/'' @ u @ ''?key='' @ key @ ''&json''))),
      s\<lparr>issued := issued s @
           [Request (baseUrl s @ ''/api/'' @ u @ ''?key='' @ key @ ''&json'')]\<rparr>)"
  by (simp add: getApiRequest_def validateKey_def send_def Let_def)

lemma getApiRequest_unconverted:
  "apiKey s \<noteq> JUndefined \<Longrightarrow> to_string (apiKey s) = Inl err \<Longrightarrow>
   getApiRequest e u s = (Throws err, s)"
  by (simp add: getApiRequest_def validateKey_def)

text \<open>\<^verbatim>\<open>getApiRequest\<close> either throws and leaves the state, or issues one request and
  hands over the promise of the library.\<close>

lemma getApiRequest_cases:
  obtains (throws) err where "getApiRequest e u s = (Throws err, s)"
  | (sends) r where "getApiRequest e u s = (settle (http e r), s\<lparr>issued := issued s @ [r]\<rparr>)"
proof (cases "apiKey s = JUndefined")
  case True
  then show ?thesis using throws by (simp add: getApiRequest_unset)
next
  case False
  then show ?thesis
    using throws sends
    by (cases "to_string (apiKey s)")
      (simp_all add: getApiRequest_set getApiRequest_unconverted)
qed

text \<open>Every operation is one call of one of the three helpers, on its endpoint.\<close>

lemma invoke_helper [case_names download get post]:
  obtains (download) "is_download c" "invoke e c s = getApiRequest e (endpoint c) s"
  | (get) "\<not> is_download c" "invoke e c s = getApiCall e (endpoint c) s"
  | (post) g p where "\<not> is_download c" "invoke e c s = postApiCall e (endpoint c) g p s"
  by (cases c) (simp_all add: op_defs)

lemma map_of_extend_key:
  "map_of (extend origin [(''json'', j), (''key'', k)]) =
     (map_of origin)(''key'' \<mapsto> k, ''json'' \<mapsto> j)"
  by (simp add: extend_def update_conv')

lemma getApiCall_sent:
  "issued (snd (getApiCall e u s)) = issued s @ [r] \<Longrightarrow>
   fst (getApiCall e u s) = handleRequest e (http e r)"
  by (cases "apiKey s = JUndefined") (simp_all add: getApiCall_unset getApiCall_set)

lemma postApiCall_sent:
  "issued (snd (postApiCall e u g p s)) = issued s @ [r] \<Longrightarrow>
   fst (postApiCall e u g p s) = handleRequest e (http e r)"
  by (cases "apiKey s = JUndefined") (simp_all add: postApiCall_unset postApiCall_set)

lemma getApiRequest_sent:
  "issued (snd (getApiRequest e u s)) = issued s @ [r] \<Longrightarrow>
   fst (getApiRequest e u s) = settle (http e r)"
  by (cases rule: getApiRequest_cases [of e u s]) simp_all

lemma invoke_sent:
  assumes "issued (snd (invoke e c s)) = issued s @ [r]"
  shows "fst (invoke e c s) =
    (if is_download c then settle (http e r) else handleRequest e (http e r))"
proof (cases rule: invoke_helper [of c e s])
  case download
  with assms show ?thesis by (simp add: getApiRequest_sent)
next
  case get
  with assms show ?thesis by (simp add: getApiCall_sent)
next
  case (post g p)
  with assms show ?thesis by (simp add: postApiCall_sent)
qed

lemma handleRequest_parsed:
  "JSON_parse e body = Some v \<Longrightarrow> handleRequest e (Resolved body) = Fulfils v"
  by (simp add: handleRequest_def)

lemma handleRequest_envelope:
  assumes "get_prop failure ''response'' = Inr response"
    and "get_prop response ''body'' = Inr body"
    and "truthy body"
    and "to_string body = Inr text"
    and "JSON_parse e text = Some parsed"
    and "get_prop parsed ''error'' = Inr err"
    and "get_prop err ''code'' = Inr code"
    and "to_string code = Inr code_text"
    and "get_prop err ''message'' = Inr message"
    and "to_string message = Inr message_text"
  shows "handleRequest e (RejectedWith failure) =
    Rejects (Error (''Error code '' @ code_text @ '': '' @ message_text))"
  using assms by (simp add: handleRequest_def on_rejected_def throwError_def)

lemma getApiCall_issued:
  "\<exists>rs. issued (snd (getApiCall e u s)) = issued s @ rs \<and> length rs \<le> 1"
  by (cases "apiKey s = JUndefined") (simp_all add: getApiCall_unset getApiCall_set)

lemma postApiCall_issued:
  "\<exists>rs. issued (snd (postApiCall e u g p s)) = issued s @ rs \<and> length rs \<le> 1"
  by (cases "apiKey s = JUndefined") (simp_all add: postApiCall_unset postApiCall_set)

lemma getApiRequest_issued:
  "\<exists>rs. issued (snd (getApiRequest e u s)) = issued s @ rs \<and> length rs \<le> 1"
  by (cases rule: getApiRequest_cases [of e u s]) simp_all

lemma helpers_keep_globals:
  "apiKey (snd (getApiCall e u s)) = apiKey s \<and> baseUrl (snd (getApiCall e u s)) = baseUrl s"
  "apiKey (snd (postApiCall e u g p s)) = apiKey s \<and>
   baseUrl (snd (postApiCall e u g p s)) = baseUrl s"
  by (cases "apiKey s = JUndefined";
      simp add: getApiCall_unset getApiCall_set postApiCall_unset postApiCall_set
        extend_arg_frame)+

lemma getApiRequest_keeps_globals:
  "apiKey (snd (getApiRequest e u s)) = apiKey s \<and>
   baseUrl (snd (getApiRequest e u s)) = baseUrl s"
  by (cases rule: getApiRequest_cases [of e u s]) simp_all

text \<open>The requests a helper adds, and what it does to the objects of the caller.\<close>

lemma new_requests_get:
  "drop (length (issued s)) (issued (snd (getApiCall e u s))) =
     (if apiKey s = JUndefined then []
      else [RequestGet (baseUrl s @ ''/api/'' @ u) [(''json'', JBool True), (''key'', apiKey s)]])"
  by (simp add: getApiCall_unset getApiCall_set)

lemma new_requests_post:
  "drop (length (issued s)) (issued (snd (postApiCall e u g p s))) =
     (if apiKey s = JUndefined then []
      else [RequestPost (baseUrl s @ ''/api/'' @ u)
              (extend (arg_object g s) [(''json'', JBool True), (''key'', apiKey s)])
              (arg_object p
                 (snd (extend_arg g [(''json'', JBool True), (''key'', apiKey s)] s)))])"
  by (simp add: postApiCall_unset postApiCall_set)

lemma new_requests_download:
  "drop (length (issued s)) (issued (snd (getApiRequest e u s))) =
     (if apiKey s = JUndefined then []
      else case to_string (apiKey s) of
             Inl err \<Rightarrow> []
           | Inr key \<Rightarrow> [Request (baseUrl s @ ''/api/'' @ u @ ''?key='' @ key @ ''&json'')])"
  by (cases "to_string (apiKey s)")
    (simp_all add: getApiRequest_unset getApiRequest_set getApiRequest_unconverted)

lemma requests_determined:
  assumes "apiKey s = apiKey t" and "baseUrl s = baseUrl t"
    and "arg_object (params_of c) s = arg_object (params_of c) t"
  shows "new_requests e c s = new_requests e' c t"
  using assms
  by (cases c)
    (simp_all add: new_requests_def op_defs new_requests_get new_requests_post
      new_requests_download split: sum.splits)

lemma helpers_store:
  "store (snd (getApiCall e u s)) = store s"
  "store (snd (postApiCall e u Undefined p s)) = store s"
  "store (snd (postApiCall e u (Fresh obj) p s)) = store s"
  by (cases "apiKey s = JUndefined";
      simp add: getApiCall_unset getApiCall_set postApiCall_unset postApiCall_set)+

lemma getApiRequest_store: "store (snd (getApiRequest e u s)) = store s"
  by (cases rule: getApiRequest_cases [of e u s]) simp_all

lemma store_kept: "\<not> is_createDirectory c \<Longrightarrow> store (snd (invoke e c s)) = store s"
  by (cases c) (simp_all add: op_defs helpers_store getApiRequest_store)

text \<open>Where concatenation is enough: a URL built as \<^verbatim>\<open>getApiRequest\<close> builds it has the
  key as its query parameter \<^verbatim>\<open>key\<close> when the key holds no \<^verbatim>\<open>&\<close> and no \<^verbatim>\<open>#\<close>, and
  the base URL and the path no \<^verbatim>\<open>?\<close> and no \<^verbatim>\<open>#\<close>.\<close>

lemma split_first_absent: "c \<notin> set xs \<Longrightarrow> split_first c xs = (xs, None)"
  by (induction xs) auto

lemma split_first_at: "c \<notin> set xs \<Longrightarrow> split_first c (xs @ c # ys) = (xs, Some ys)"
  by (induction xs) auto

lemma pieces_at: "c \<notin> set xs \<Longrightarrow> pieces c (xs @ c # ys) = xs # pieces c ys"
  by (induction xs) auto

lemma download_url_carries_key:
  assumes "CHR ''#'' \<notin> set (base @ path @ key)"
    and "CHR ''?'' \<notin> set (base @ path)"
    and "CHR ''&'' \<notin> set key"
  shows "url_param ''key'' (base @ ''/api/'' @ path @ ''?key='' @ key @ ''&json'') = Some key"
proof -
  let ?front = "base @ ''/api/'' @ path"
  let ?query = "''key='' @ key @ ''&json''"
  have no_hash: "CHR ''#'' \<notin> set (?front @ CHR ''?'' # ?query)"
    using assms(1) by auto
  have no_mark: "CHR ''?'' \<notin> set ?front"
    using assms(2) by auto
  have "url_query (?front @ CHR ''?'' # ?query) = Some ?query"
    unfolding url_query_def
    by (simp only: split_first_absent [OF no_hash] split_first_at [OF no_mark] fst_conv snd_conv)
  moreover have "pieces CHR ''&'' ((''key='' @ key) @ CHR ''&'' # ''json'') =
      (''key='' @ key) # pieces CHR ''&'' ''json''"
    using assms(3) by (intro pieces_at) auto
  then have "map_of (query_params ?query) ''key'' = Some key"
    by (simp add: query_params_def)
  ultimately show ?thesis
    by (simp add: url_param_def)
qed

section \<open>The claims\<close>

text \<open>C1, as the code has it. When the HTTP call succeeds and the body parses to an error
  envelope (an object whose \<^verbatim>\<open>error\<close> has a \<^verbatim>\<open>code\<close> and a \<^verbatim>\<open>message\<close>), no
  exception carries the vendor's code and message: an operation that goes through
  \<^verbatim>\<open>handleRequest\<close> is fulfilled with the parsed envelope itself, and a download
  operation with the body as a string.\<close>

theorem C1_envelope_returned:
  assumes "issued (snd (invoke e c s)) = issued s @ [r]"
    and "http e r = Resolved body"
    and "JSON_parse e body = Some v"
    and "get_prop v ''error'' = Inr err"
    and "get_prop err ''code'' = Inr code"
    and "get_prop err ''message'' = Inr message"
  shows "fst (invoke e c s) = Fulfils (if is_download c then JStr body else v)
    \<and> fst (invoke e c s) \<noteq> Rejects (throwError v)"
  using assms(1-3) by (simp add: invoke_sent handleRequest_parsed)

theorem C1_envelope_returned_witness:
  "issued (snd (invoke (answering envelope_text) (ProjectInfo ''p'') ready)) =
     issued ready @
       [RequestPost ''https://api.crowdin.com/api/project/p/info''
          [(''key'', JStr ''abc''), (''json'', JBool True)] []]
   \<and> get_prop envelope ''error'' =
       Inr (JObj [(''code'', JNum (safe 3)), (''message'', JStr ''API key is not valid'')])
   \<and> fst (invoke (answering envelope_text) (ProjectInfo ''p'') ready) = Fulfils envelope"
proof -
  let ?r = "RequestPost ''https://api.crowdin.com/api/project/p/info''
          [(''key'', JStr ''abc''), (''json'', JBool True)] []"
  let ?err = "JObj [(''code'', JNum (safe 3)), (''message'', JStr ''API key is not valid'')]"
  have sent: "issued (snd (invoke (answering envelope_text) (ProjectInfo ''p'') ready)) =
      issued ready @ [?r]"
    by (simp add: run_defs ready_def setKey_def initial_def)
  have ok: "http (answering envelope_text) ?r = Resolved envelope_text"
    by (simp add: answering_def)
  have parsed: "JSON_parse (answering envelope_text) envelope_text = Some envelope"
    by (simp add: answering_def sample_parse_def)
  have err: "get_prop envelope ''error'' = Inr ?err"
    by (simp add: envelope_def)
  have code: "get_prop ?err ''code'' = Inr (JNum (safe 3))"
    by simp
  have message: "get_prop ?err ''message'' = Inr (JStr ''API key is not valid'')"
    by simp
  from C1_envelope_returned [OF sent ok parsed err code message] sent err
  show ?thesis by simp
qed

text \<open>C1 as stated fails: \<^verbatim>\<open>projectInfo\<close>, answered with a successful response whose
  body is an error envelope, returns the envelope.\<close>

theorem C1_counterexample:
  "issued (snd (invoke (answering envelope_text) (ProjectInfo ''p'') ready)) =
     [RequestPost ''https://api.crowdin.com/api/project/p/info''
        [(''key'', JStr ''abc''), (''json'', JBool True)] []]
   \<and> http (answering envelope_text)
        (RequestPost ''https://api.crowdin.com/api/project/p/info''
           [(''key'', JStr ''abc''), (''json'', JBool True)] []) = Resolved envelope_text
   \<and> JSON_parse (answering envelope_text) envelope_text = Some envelope
   \<and> throwError envelope = Error ''Error code 3: API key is not valid''
   \<and> fst (invoke (answering envelope_text) (ProjectInfo ''p'') ready) = Fulfils envelope"
  by (simp add: run_defs answering_def sample_parse_def envelope_def ready_def setKey_def
      initial_def)

text \<open>C2, as the code has it. When the HTTP layer fails, a download operation is rejected
  with the error value of the HTTP layer, unchanged, whatever that value carries. An
  operation that goes through \<^verbatim>\<open>handleRequest\<close>, when the failed response carries a
  body that is the JSON text of an error envelope, is rejected with the Error whose
  message is \<^verbatim>\<open>Error code <code>: <message>\<close>, the code and the message of the envelope
  converted to strings.\<close>

theorem C2_failure_message:
  assumes "issued (snd (invoke e c s)) = issued s @ [r]"
    and "http e r = RejectedWith failure"
  shows "(is_download c \<longrightarrow> fst (invoke e c s) = Rejects (Thrown failure))
    \<and> (\<not> is_download c
        \<and> get_prop failure ''response'' = Inr response
        \<and> get_prop response ''body'' = Inr body
        \<and> truthy body
        \<and> to_string body = Inr text
        \<and> JSON_parse e text = Some parsed
        \<and> get_prop parsed ''error'' = Inr err
        \<and> get_prop err ''code'' = Inr code
        \<and> to_string code = Inr code_text
        \<and> get_prop err ''message'' = Inr message
        \<and> to_string message = Inr message_text
        \<longrightarrow> fst (invoke e c s) =
              Rejects (Error (''Error code '' @ code_text @ '': '' @ message_text)))"
proof (cases "is_download c")
  case True
  with assms show ?thesis by (simp add: invoke_sent)
next
  case False
  with assms have "fst (invoke e c s) = handleRequest e (RejectedWith failure)"
    by (simp add: invoke_sent)
  with False show ?thesis by (auto simp: handleRequest_envelope)
qed

theorem C2_failure_message_witness:
  "fst (invoke failing (DownloadTranslations ''p'' ''de'') ready) = Rejects (Thrown status_error)
   \<and> issued (snd (invoke failing (ProjectInfo ''p'') ready)) =
       issued ready @
         [RequestPost ''https://api.crowdin.com/api/project/p/info''
            [(''key'', JStr ''abc''), (''json'', JBool True)] []]
   \<and> truthy (JStr envelope_text)
   \<and> fst (invoke failing (ProjectInfo ''p'') ready) =
       Rejects (Error ''Error code 3: API key is not valid'')"
proof -
  let ?d = "Request ''https://api.crowdin.com/api/project/p/download/de.zip?key=abc&json''"
  let ?r = "RequestPost ''https://api.crowdin.com/api/project/p/info''
          [(''key'', JStr ''abc''), (''json'', JBool True)] []"
  let ?response = "JObj [(''statusCode'', JNum (safe 401)), (''body'', JStr envelope_text)]"
  let ?err = "JObj [(''code'', JNum (safe 3)), (''message'', JStr ''API key is not valid'')]"
  have download: "is_download (DownloadTranslations ''p'' ''de'')"
    by simp
  have sent_d: "issued (snd (invoke failing (DownloadTranslations ''p'' ''de'') ready)) =
      issued ready @ [?d]"
    by (simp add: run_defs ready_def setKey_def initial_def)
  have failed_d: "http failing ?d = RejectedWith status_error"
    by (simp add: failing_def)
  have sent: "issued (snd (invoke failing (ProjectInfo ''p'') ready)) = issued ready @ [?r]"
    by (simp add: run_defs ready_def setKey_def initial_def)
  have failed: "http failing ?r = RejectedWith status_error"
    by (simp add: failing_def)
  have envelope:
    "\<not> is_download (ProjectInfo ''p'')
     \<and> get_prop status_error ''response'' = Inr ?response
     \<and> get_prop ?response ''body'' = Inr (JStr envelope_text)
     \<and> truthy (JStr envelope_text)
     \<and> to_string (JStr envelope_text) = Inr envelope_text
     \<and> JSON_parse failing envelope_text = Some envelope
     \<and> get_prop envelope ''error'' = Inr ?err
     \<and> get_prop ?err ''code'' = Inr (JNum (safe 3))
     \<and> to_string (JNum (safe 3)) = Inr ''3''
     \<and> get_prop ?err ''message'' = Inr (JStr ''API key is not valid'')
     \<and> to_string (JStr ''API key is not valid'') = Inr ''API key is not valid''"
    by (simp add: status_error_def envelope_def envelope_text_def failing_def
        sample_parse_def safe_inverse show_int_def show_nat.simps)
  from C2_failure_message [OF sent_d failed_d] download
  have first: "fst (invoke failing (DownloadTranslations ''p'' ''de'') ready) =
      Rejects (Thrown status_error)"
    by blast
  from C2_failure_message [OF sent failed] envelope
  have second: "fst (invoke failing (ProjectInfo ''p'') ready) =
      Rejects (Error (''Error code '' @ ''3'' @ '': '' @ ''API key is not valid''))"
    by blast
  from first second sent envelope show ?thesis by simp
qed

text \<open>C2 as stated fails for the download operations: \<^verbatim>\<open>downloadGlossary\<close>, failed by
  the HTTP layer with an error envelope in the body, is rejected with the error value of
  the HTTP layer, not with an Error made from the envelope.\<close>

theorem C2_counterexample:
  "issued (snd (invoke failing (DownloadGlossary ''p'') ready)) =
     [Request ''https://api.crowdin.com/api/project/p/download-glossary?key=abc&json'']
   \<and> http failing
        (Request ''https://api.crowdin.com/api/project/p/download-glossary?key=abc&json'') =
       RejectedWith status_error
   \<and> get_prop status_error ''response'' =
       Inr (JObj [(''statusCode'', JNum (safe 401)), (''body'', JStr envelope_text)])
   \<and> JSON_parse failing envelope_text = Some envelope
   \<and> throwError envelope = Error ''Error code 3: API key is not valid''
   \<and> fst (invoke failing (DownloadGlossary ''p'') ready) = Rejects (Thrown status_error)"
  by (simp add: run_defs failing_def sample_parse_def status_error_def envelope_def
      ready_def setKey_def initial_def)

text \<open>C3, as the code has it. When the HTTP call succeeds, a download operation returns
  the body itself, a string, whatever it is: nothing is parsed. An operation that goes
  through \<^verbatim>\<open>handleRequest\<close> returns the parsed body when the body is valid JSON.\<close>

theorem C3_parsed_or_raw:
  assumes "issued (snd (invoke e c s)) = issued s @ [r]"
    and "http e r = Resolved body"
  shows "(is_download c \<longrightarrow> fst (invoke e c s) = Fulfils (JStr body))
    \<and> (\<not> is_download c \<and> JSON_parse e body = Some v \<longrightarrow> fst (invoke e c s) = Fulfils v)"
  using assms by (simp add: invoke_sent handleRequest_parsed)

theorem C3_parsed_or_raw_witness:
  "JSON_parse (answering ''PK'') ''PK'' = None
   \<and> fst (invoke (answering ''PK'') (DownloadAllTranslations ''p'') ready) = Fulfils (JStr ''PK'')
   \<and> issued (snd (invoke (answering ''{}'') (DeleteProject ''p'') ready)) =
       issued ready @
         [RequestPost ''https://api.crowdin.com/api/project/p/delete-project''
            [(''key'', JStr ''abc''), (''json'', JBool True)] []]
   \<and> fst (invoke (answering ''{}'') (DeleteProject ''p'') ready) = Fulfils (JObj [])"
proof -
  let ?d = "Request ''https://api.crowdin.com/api/project/p/download/all.zip?key=abc&json''"
  let ?r = "RequestPost ''https://api.crowdin.com/api/project/p/delete-project''
          [(''key'', JStr ''abc''), (''json'', JBool True)] []"
  have not_json: "JSON_parse (answering ''PK'') ''PK'' = None"
    by (simp add: answering_def sample_parse_def envelope_text_def)
  have download: "is_download (DownloadAllTranslations ''p'')"
    by simp
  have sent_d: "issued (snd (invoke (answering ''PK'') (DownloadAllTranslations ''p'') ready)) =
      issued ready @ [?d]"
    by (simp add: run_defs ready_def setKey_def initial_def)
  have ok_d: "http (answering ''PK'') ?d = Resolved ''PK''"
    by (simp add: answering_def)
  have sent: "issued (snd (invoke (answering ''{}'') (DeleteProject ''p'') ready)) =
      issued ready @ [?r]"
    by (simp add: run_defs ready_def setKey_def initial_def)
  have ok: "http (answering ''{}'') ?r = Resolved ''{}''"
    by (simp add: answering_def)
  have parsed: "\<not> is_download (DeleteProject ''p'')
      \<and> JSON_parse (answering ''{}'') ''{}'' = Some (JObj [])"
    by (simp add: answering_def sample_parse_def envelope_text_def)
  from C3_parsed_or_raw [OF sent_d ok_d] download
  have first: "fst (invoke (answering ''PK'') (DownloadAllTranslations ''p'') ready) =
      Fulfils (JStr ''PK'')"
    by blast
  from C3_parsed_or_raw [OF sent ok, of "JObj []"] parsed
  have second: "fst (invoke (answering ''{}'') (DeleteProject ''p'') ready) = Fulfils (JObj [])"
    by blast
  from not_json first second sent show ?thesis by simp
qed

text \<open>C3 as stated fails for the download operations: \<^verbatim>\<open>downloadGlossary\<close>, answered
  with the body \<^verbatim>\<open>{}\<close>, returns that string and not the object it parses to.\<close>

theorem C3_counterexample:
  "issued (snd (invoke (answering ''{}'') (DownloadGlossary ''p'') ready)) =
     [Request ''https://api.crowdin.com/api/project/p/download-glossary?key=abc&json'']
   \<and> http (answering ''{}'')
        (Request ''https://api.crowdin.com/api/project/p/download-glossary?key=abc&json'') =
       Resolved ''{}''
   \<and> JSON_parse (answering ''{}'') ''{}'' = Some (JObj [])
   \<and> fst (invoke (answering ''{}'') (DownloadGlossary ''p'') ready) = Fulfils (JStr ''{}'')
   \<and> JStr ''{}'' \<noteq> JObj []"
  by (simp add: run_defs answering_def sample_parse_def envelope_text_def ready_def
      setKey_def initial_def)

text \<open>C4. The code at the key \<^verbatim>\<open>a&b\<close>. \<^verbatim>\<open>projectInfo\<close>, through \<^verbatim>\<open>postApiCall\<close>,
  hands the stored key to the library as the property \<^verbatim>\<open>key\<close> of the query-string
  object. \<^verbatim>\<open>downloadGlossary\<close>, through \<^verbatim>\<open>getApiRequest\<close>, writes the key into the
  URL as it is: the query parameter \<^verbatim>\<open>key\<close> of the URL it requests is \<^verbatim>\<open>a\<close>, not the
  stored key. For the project \<^verbatim>\<open>p#x\<close> the URL it requests has no query at all.\<close>

theorem C4_key_not_escaped:
  "new_requests failing (ProjectInfo ''p'') (setKey (JStr ''a&b'') initial) =
     [RequestPost ''https://api.crowdin.com/api/project/p/info''
        [(''key'', JStr ''a&b''), (''json'', JBool True)] []]
   \<and> new_requests failing (DownloadGlossary ''p'') (setKey (JStr ''a&b'') initial) =
       [Request ''https://api.crowdin.com/api/project/p/download-glossary?key=a&b&json'']
   \<and> url_param ''key''
        ''https://api.crowdin.com/api/project/p/download-glossary?key=a&b&json'' = Some ''a''
   \<and> new_requests failing (DownloadGlossary ''p#x'') ready =
       [Request ''https://api.crowdin.com/api/project/p#x/download-glossary?key=abc&json'']
   \<and> url_param ''key''
        ''https://api.crowdin.com/api/project/p#x/download-glossary?key=abc&json'' = None"
  by (simp add: new_requests_def run_defs url_param_def url_query_def query_params_def
      ready_def setKey_def initial_def)

text \<open>C5. The module has two variables. \<^verbatim>\<open>setKey\<close> assigns the key and nothing else,
  \<^verbatim>\<open>setBasePath\<close> assigns the base URL and nothing else, and a call of any operation
  leaves both as they were.\<close>

theorem C5_globals_frame:
  "apiKey (setKey newKey s) = newKey \<and> baseUrl (setKey newKey s) = baseUrl s
   \<and> store (setKey newKey s) = store s \<and> issued (setKey newKey s) = issued s
   \<and> baseUrl (setBasePath newBasePath s) = newBasePath
   \<and> apiKey (setBasePath newBasePath s) = apiKey s
   \<and> store (setBasePath newBasePath s) = store s
   \<and> issued (setBasePath newBasePath s) = issued s
   \<and> apiKey (snd (invoke e c s)) = apiKey s
   \<and> baseUrl (snd (invoke e c s)) = baseUrl s"
proof -
  have "apiKey (snd (invoke e c s)) = apiKey s \<and> baseUrl (snd (invoke e c s)) = baseUrl s"
    by (cases rule: invoke_helper [of c e s])
      (simp_all add: helpers_keep_globals getApiRequest_keeps_globals)
  then show ?thesis by (simp add: setKey_def setBasePath_def)
qed

text \<open>C6, as the code has it. The request of a call is determined by the arguments, the
  content of the \<^verbatim>\<open>params\<close> object, and the stored key and base URL, so it does depend on
  earlier calls of \<^verbatim>\<open>setKey\<close> and \<^verbatim>\<open>setBasePath\<close>: two calls with the same
  arguments under the same key and base URL issue the same request, whatever the network
  answers. An operation other than \<^verbatim>\<open>createDirectory\<close> changes no object of the
  caller.\<close>

theorem C6_requests_determined:
  "(apiKey s = apiKey t \<and> baseUrl s = baseUrl t
      \<and> arg_object (params_of c) s = arg_object (params_of c) t
      \<longrightarrow> new_requests e c s = new_requests e' c t)
   \<and> (\<not> is_createDirectory c \<longrightarrow> store (snd (invoke e c s)) = store s)"
  by (simp add: requests_determined store_kept)

theorem C6_requests_determined_witness:
  "apiKey ready = apiKey (snd (invoke failing (EditProject ''p'' (Ref 0)) ready))
   \<and> baseUrl ready = baseUrl (snd (invoke failing (EditProject ''p'' (Ref 0)) ready))
   \<and> \<not> is_createDirectory (EditProject ''p'' (Ref 0))
   \<and> new_requests failing (EditProject ''p'' (Ref 0)) ready =
       new_requests (answering ''{}'') (EditProject ''p'' (Ref 0))
         (snd (invoke failing (EditProject ''p'' (Ref 0)) ready))
   \<and> store (snd (invoke failing (EditProject ''p'' (Ref 0)) ready)) = store ready"
proof -
  let ?c = "EditProject ''p'' (Ref 0)"
  let ?t = "snd (invoke failing ?c ready)"
  have after: "?t = ready\<lparr>issued :=
      [RequestPost ''https://api.crowdin.com/api/project/p/edit-project''
         [(''key'', JStr ''abc''), (''json'', JBool True)] []]\<rparr>"
    by (simp add: run_defs ready_def setKey_def initial_def)
  have same: "apiKey ready = apiKey ?t \<and> baseUrl ready = baseUrl ?t
      \<and> arg_object (params_of ?c) ready = arg_object (params_of ?c) ?t"
    unfolding after by simp
  from C6_requests_determined [of ready ?t ?c failing "answering ''{}''"] same
  show ?thesis by simp
qed

text \<open>C6 as stated fails: the request of \<^verbatim>\<open>supportedLanguages()\<close> depends on the key
  set before it, and \<^verbatim>\<open>createDirectory\<close> changes the \<^verbatim>\<open>params\<close> object of its
  caller.\<close>

theorem C6_counterexample:
  "new_requests failing SupportedLanguages (setKey (JStr ''a'') initial) \<noteq>
     new_requests failing SupportedLanguages (setKey (JStr ''b'') initial)
   \<and> store (snd (invoke failing (CreateDirectory ''p'' ''d'' (Ref 0)) ready)) 0 \<noteq>
       store ready 0"
  by (simp add: new_requests_def run_defs setKey_def ready_def initial_def)

text \<open>C7. One call of an operation adds at most one request to those issued, whatever the
  network answers.\<close>

theorem C7_at_most_one_request:
  "\<exists>rs. issued (snd (invoke e c s)) = issued s @ rs \<and> length rs \<le> 1"
  by (cases c)
    (simp_all only: invoke.simps op_defs getApiCall_issued postApiCall_issued
      getApiRequest_issued)

text \<open>C8. While the API key is undefined, every operation throws the Error
  \<^verbatim>\<open>Please specify CrowdIn API key.\<close> and leaves the state as it was: no request has
  been issued.\<close>

theorem C8_key_required:
  "apiKey s = JUndefined \<Longrightarrow>
   invoke e c s = (Throws (Error ''Please specify CrowdIn API key.''), s)"
  by (cases c)
    (simp_all only: invoke.simps op_defs getApiCall_unset postApiCall_unset
      getApiRequest_unset)

theorem C8_key_required_witness:
  "apiKey initial = JUndefined
   \<and> invoke failing (DownloadAllTranslations ''p'') initial =
       (Throws (Error ''Please specify CrowdIn API key.''), initial)
   \<and> issued initial = []"
proof -
  have unset: "apiKey initial = JUndefined"
    by (simp add: initial_def)
  from C8_key_required [OF unset, of failing "DownloadAllTranslations ''p''"] unset
  show ?thesis by (simp add: initial_def)
qed

text \<open>C9. \<^verbatim>\<open>changeDirectory\<close> does the same with and without \<^verbatim>\<open>params\<close>, and the
  form body of its request holds the field \<^verbatim>\<open>name\<close> alone.\<close>

theorem C9_params_ignored:
  "changeDirectory e projectName directory params s =
     changeDirectory e projectName directory Undefined s
   \<and> (apiKey s \<noteq> JUndefined \<longrightarrow>
        issued (snd (changeDirectory e projectName directory params s)) =
          issued s @
            [RequestPost (baseUrl s @ ''/api/'' @ ''project/'' @ projectName @ ''/change-directory'')
               [(''key'', apiKey s), (''json'', JBool True)]
               [(''name'', JStr directory)]])"
  by (simp add: changeDirectory_def postApiCall_set extend_def)

theorem C9_params_ignored_witness:
  "apiKey (ready\<lparr>store := (\<lambda>a. [(''title'', JStr ''T'')])\<rparr>) \<noteq> JUndefined
   \<and> issued (snd (changeDirectory failing ''p'' ''docs'' (Ref 0)
        (ready\<lparr>store := (\<lambda>a. [(''title'', JStr ''T'')])\<rparr>))) =
      [RequestPost ''https://api.crowdin.com/api/project/p/change-directory''
         [(''key'', JStr ''abc''), (''json'', JBool True)] [(''name'', JStr ''docs'')]]"
proof -
  let ?s = "ready\<lparr>store := (\<lambda>a. [(''title'', JStr ''T'')])\<rparr>"
  have stored: "apiKey ?s \<noteq> JUndefined"
    by (simp add: ready_def setKey_def)
  from C9_params_ignored [of failing "''p''" "''docs''" "Ref 0" ?s]
  have "apiKey ?s \<noteq> JUndefined \<longrightarrow>
      issued (snd (changeDirectory failing ''p'' ''docs'' (Ref 0) ?s)) =
        issued ?s @
          [RequestPost (baseUrl ?s @ ''/api/'' @ ''project/'' @ ''p'' @ ''/change-directory'')
             [(''key'', apiKey ?s), (''json'', JBool True)] [(''name'', JStr ''docs'')]]"
    by (rule conjunct2)
  with stored show ?thesis
    by (simp add: ready_def setKey_def initial_def)
qed

text \<open>C10. With a key stored, \<^verbatim>\<open>createDirectory\<close> called with a \<^verbatim>\<open>params\<close> object
  extends that object in place with \<^verbatim>\<open>json = true\<close> and \<^verbatim>\<open>key = <the stored key>\<close>,
  keeping its other properties, and passes it as the query-string object of the request;
  the form body holds the field \<^verbatim>\<open>name\<close> alone. No other object changes.\<close>

theorem C10_createDirectory_params:
  assumes "apiKey s \<noteq> JUndefined"
  shows "issued (snd (createDirectory e projectName directory (Ref a) s)) =
      issued s @
        [RequestPost (baseUrl s @ ''/api/'' @ ''project/'' @ projectName @ ''/add-directory'')
           (store (snd (createDirectory e projectName directory (Ref a) s)) a)
           [(''name'', JStr directory)]]
    \<and> store (snd (createDirectory e projectName directory (Ref a) s)) =
        (store s)(a := extend (store s a) [(''json'', JBool True), (''key'', apiKey s)])
    \<and> map_of (store (snd (createDirectory e projectName directory (Ref a) s)) a) =
        (map_of (store s a))(''key'' \<mapsto> apiKey s, ''json'' \<mapsto> JBool True)"
  using assms by (simp add: createDirectory_def postApiCall_set map_of_extend_key)

theorem C10_createDirectory_params_witness:
  "apiKey (ready\<lparr>store := (\<lambda>a. [(''title'', JStr ''T'')])\<rparr>) \<noteq> JUndefined
   \<and> issued (snd (createDirectory failing ''p'' ''docs'' (Ref 0)
        (ready\<lparr>store := (\<lambda>a. [(''title'', JStr ''T'')])\<rparr>))) =
      [RequestPost ''https://api.crowdin.com/api/project/p/add-directory''
         [(''title'', JStr ''T''), (''key'', JStr ''abc''), (''json'', JBool True)]
         [(''name'', JStr ''docs'')]]
   \<and> store (snd (createDirectory failing ''p'' ''docs'' (Ref 0)
        (ready\<lparr>store := (\<lambda>a. [(''title'', JStr ''T'')])\<rparr>))) 0 =
      [(''title'', JStr ''T''), (''key'', JStr ''abc''), (''json'', JBool True)]"
proof -
  let ?s = "ready\<lparr>store := (\<lambda>a. [(''title'', JStr ''T'')])\<rparr>"
  have stored: "apiKey ?s \<noteq> JUndefined"
    by (simp add: ready_def setKey_def)
  from C10_createDirectory_params [OF stored, of failing "''p''" "''docs''" 0] stored
  show ?thesis
    by (simp add: extend_def ready_def setKey_def initial_def)
qed

end
